theory Spec2Isabelle
  imports Main
begin

section \<open>The font readiness hook\<close>

text \<open>
  \<^verbatim>\<open>src/hooks/useFontsLoaded.js\<close> keeps one piece of React state, \<^verbatim>\<open>fontsLoaded\<close>,
  created by \<^verbatim>\<open>useState(false)\<close>, and one effect that runs once after the first render.
  The effect either attaches a reaction to the promise \<^verbatim>\<open>document.fonts.ready\<close> or
  calls the local function \<^verbatim>\<open>checkFonts\<close>, which re-arms itself with
  \<^verbatim>\<open>setTimeout(checkFonts, 100)\<close> or arms \<^verbatim>\<open>setTimeout(() => setFontsLoaded(true), 1000)\<close>.

  The browser is an input of the model: whether \<^verbatim>\<open>document.fonts\<close> exists, whether it has
  a \<^verbatim>\<open>ready\<close> promise and when that promise is fulfilled, whether it has a
  \<^verbatim>\<open>check\<close> method and what that method answers for a font string at a time of call.
  Times are milliseconds since the mount.
\<close>

datatype promise = Never | ResolvesAt nat

record fontFaceSet =
  ready :: "promise option"
  check :: "(nat \<Rightarrow> string \<Rightarrow> bool) option"

record document =
  fonts :: "fontFaceSet option"

text \<open>The two font strings that \<^verbatim>\<open>checkFonts\<close> passes to \<^verbatim>\<open>document.fonts.check\<close>.\<close>

definition antonio_font :: string where
  \<open>antonio_font = ''1em "Antonio"''\<close>

definition proxima_font :: string where
  \<open>proxima_font = ''1em "ProximaNova, sans-serif"''\<close>

text \<open>
  The callbacks the hook hands to the event loop: the reaction of
  \<^verbatim>\<open>document.fonts.ready.then\<close>, the function \<^verbatim>\<open>checkFonts\<close> itself, and the
  arrow function \<^verbatim>\<open>() => setFontsLoaded(true)\<close> of the 1000 ms timer.
\<close>

datatype callback = FontsReadyThen | CheckFonts | AssumeLoaded

text \<open>
  The state of one mounted hook: the React state, the callbacks waiting in the event loop
  with the time each becomes due (earliest first), the clock, and a counter of the calls of
  \<^verbatim>\<open>setFontsLoaded\<close> made so far (a ghost field: the source has no such counter).
\<close>

record hook_state =
  fontsLoaded :: bool
  pending :: "(nat \<times> callback) list"
  clock :: nat
  set_calls :: nat

definition initial :: hook_state where
  "initial = \<lparr>fontsLoaded = False, pending = [], clock = 0, set_calls = 0\<rparr>"

definition setFontsLoaded :: "bool \<Rightarrow> hook_state \<Rightarrow> hook_state" where
  "setFontsLoaded v s = s\<lparr>fontsLoaded := v, set_calls := Suc (set_calls s)\<rparr>"

fun enqueue :: "nat \<times> callback \<Rightarrow> (nat \<times> callback) list \<Rightarrow> (nat \<times> callback) list" where
  "enqueue x [] = [x]"
| "enqueue x (y # ys) = (if fst x < fst y then x # y # ys else y # enqueue x ys)"

definition setTimeout :: "callback \<Rightarrow> nat \<Rightarrow> hook_state \<Rightarrow> hook_state" where
  "setTimeout cb delay s = s\<lparr>pending := enqueue (clock s + delay, cb) (pending s)\<rparr>"

text \<open>\<^verbatim>\<open>promise.then(cb)\<close>: the reaction runs once the promise is fulfilled, if it ever is.\<close>

definition promise_then :: "promise \<Rightarrow> callback \<Rightarrow> hook_state \<Rightarrow> hook_state" where
  "promise_then pr cb s =
     (case pr of
        Never \<Rightarrow> s
      | ResolvesAt t \<Rightarrow> s\<lparr>pending := enqueue (max t (clock s), cb) (pending s)\<rparr>)"

text \<open>
  \<^verbatim>\<open>checkFonts\<close> (lines 14 to 31). The test \<^verbatim>\<open>document.fonts && document.fonts.check\<close>
  fails when either is missing; both failures take the 1000 ms branch.
\<close>

definition checkFonts :: "document \<Rightarrow> hook_state \<Rightarrow> hook_state" where
  "checkFonts d s =
     (case fonts d of
        None \<Rightarrow> setTimeout AssumeLoaded 1000 s
      | Some fs \<Rightarrow>
          (case check fs of
             None \<Rightarrow> setTimeout AssumeLoaded 1000 s
           | Some chk \<Rightarrow>
               (let antonioLoaded = chk (clock s) antonio_font;
                    proximaLoaded = chk (clock s) proxima_font
                in if antonioLoaded \<and> proximaLoaded then setFontsLoaded True s
                   else setTimeout CheckFonts 100 s)))"

text \<open>The body of the effect (lines 6 to 35), run once after the first render.\<close>

definition useEffect_body :: "document \<Rightarrow> hook_state \<Rightarrow> hook_state" where
  "useEffect_body d s =
     (case fonts d of
        None \<Rightarrow> checkFonts d s
      | Some fs \<Rightarrow>
          (case ready fs of
             None \<Rightarrow> checkFonts d s
           | Some pr \<Rightarrow> promise_then pr FontsReadyThen s))"

fun run_callback :: "document \<Rightarrow> callback \<Rightarrow> hook_state \<Rightarrow> hook_state" where
  "run_callback d FontsReadyThen s = setFontsLoaded True s"
| "run_callback d CheckFonts s = checkFonts d s"
| "run_callback d AssumeLoaded s = setFontsLoaded True s"

text \<open>One turn of the event loop: the earliest pending callback runs at its due time.\<close>

definition tick :: "document \<Rightarrow> hook_state \<Rightarrow> hook_state" where
  "tick d s =
     (case pending s of
        [] \<Rightarrow> s
      | (t, cb) # rest \<Rightarrow> run_callback d cb (s\<lparr>pending := rest, clock := max t (clock s)\<rparr>))"

text \<open>
  The successive states of a mounted hook: observation 0 is the first render (the value of
  \<^verbatim>\<open>useState(false)\<close>), observation 1 follows the effect, and each later observation
  follows one more turn of the event loop. The hook returns \<open>fontsLoaded\<close> of the
  current state.
\<close>

fun state_at :: "document \<Rightarrow> nat \<Rightarrow> hook_state" where
  "state_at d 0 = initial"
| "state_at d (Suc 0) = useEffect_body d initial"
| "state_at d (Suc (Suc n)) = tick d (state_at d (Suc n))"

definition useFontsLoaded :: "document \<Rightarrow> nat \<Rightarrow> bool" where
  "useFontsLoaded d n = fontsLoaded (state_at d n)"

text \<open>A false-to-true and a true-to-false transition between two successive observations.\<close>

definition rises :: "document \<Rightarrow> nat \<Rightarrow> bool" where
  "rises d n = (\<not> useFontsLoaded d n \<and> useFontsLoaded d (Suc n))"

definition falls :: "document \<Rightarrow> nat \<Rightarrow> bool" where
  "falls d n = (useFontsLoaded d n \<and> \<not> useFontsLoaded d (Suc n))"

text \<open>Browsers used as concrete inputs.\<close>

definition modern_browser :: "nat \<Rightarrow> document" where
  "modern_browser t =
     \<lparr>fonts = Some \<lparr>ready = Some (ResolvesAt t), check = Some (\<lambda>now font. t \<le> now)\<rparr>\<rparr>"

definition check_only_browser :: "(nat \<Rightarrow> string \<Rightarrow> bool) \<Rightarrow> document" where
  "check_only_browser chk = \<lparr>fonts = Some \<lparr>ready = None, check = Some chk\<rparr>\<rparr>"

definition legacy_browser :: document where
  "legacy_browser = \<lparr>fonts = None\<rparr>"

text \<open>
  The fallback of the hook is taken when the test \<^verbatim>\<open>document.fonts && document.fonts.ready\<close>
  of line 8 fails. \<open>font_check\<close> is the \<^verbatim>\<open>check\<close> method \<^verbatim>\<open>checkFonts\<close> finds, if any,
  and \<open>both_loaded\<close> is its test \<^verbatim>\<open>antonioLoaded && proximaLoaded\<close> at a time of call.
  \<open>polling k\<close> is the state the hook is in after \<open>k + 1\<close> polls have failed.
\<close>

definition promise_unavailable :: "document \<Rightarrow> bool" where
  "promise_unavailable d = (case fonts d of None \<Rightarrow> True | Some fs \<Rightarrow> ready fs = None)"

definition font_check :: "document \<Rightarrow> (nat \<Rightarrow> string \<Rightarrow> bool) option" where
  "font_check d = (case fonts d of None \<Rightarrow> None | Some fs \<Rightarrow> check fs)"

definition both_loaded :: "(nat \<Rightarrow> string \<Rightarrow> bool) \<Rightarrow> nat \<Rightarrow> bool" where
  "both_loaded chk now = (chk now antonio_font \<and> chk now proxima_font)"

definition polling :: "nat \<Rightarrow> hook_state" where
  "polling k =
     \<lparr>fontsLoaded = False, pending = [(100 * Suc k, CheckFonts)], clock = 100 * k, set_calls = 0\<rparr>"

section \<open>The page: elements, selectors and what the sections build\<close>

text \<open>
  The sections address the page through selector strings and hand them to the animation
  engine (\<^verbatim>\<open>gsap\<close>, \<^verbatim>\<open>SplitText\<close>), which is not part of the repository. An element
  carries its tag, its classes, the classes of its proper ancestors, its position among
  its siblings, its text and its attributes.
\<close>

record element =
  tag :: string
  classes :: "string list"
  ancestors :: "string list"
  nth_child :: nat
  text_content :: string
  attributes :: "(string \<times> string) list"

text \<open>
  The selector forms the sources use: \<^verbatim>\<open>.c\<close>, \<^verbatim>\<open>.a h1\<close>, \<^verbatim>\<open>.a .b\<close>,
  \<^verbatim>\<open>.a [aria-label]\<close> and \<^verbatim>\<open>.c:nth-child(k)\<close>.
\<close>

datatype simple_selector = Class string | Tag string | HasAttribute string

datatype selector =
    Sel simple_selector
  | Descendant string simple_selector
  | NthChild string nat

abbreviation cls :: "string \<Rightarrow> selector" where
  "cls c \<equiv> Sel (Class c)"

fun matches_simple :: "simple_selector \<Rightarrow> element \<Rightarrow> bool" where
  "matches_simple (Class c) e = (c \<in> set (classes e))"
| "matches_simple (Tag t) e = (tag e = t)"
| "matches_simple (HasAttribute a) e = (a \<in> set (map fst (attributes e)))"

fun matches :: "selector \<Rightarrow> element \<Rightarrow> bool" where
  "matches (Sel s) e = matches_simple s e"
| "matches (Descendant c s) e = (c \<in> set (ancestors e) \<and> matches_simple s e)"
| "matches (NthChild c k) e = (c \<in> set (classes e) \<and> nth_child e = k)"

definition querySelectorAll :: "selector \<Rightarrow> element list \<Rightarrow> element list" where
  "querySelectorAll sel es = filter (matches sel) es"

definition setAttribute :: "string \<Rightarrow> string \<Rightarrow> element \<Rightarrow> element" where
  "setAttribute name v e =
     e\<lparr>attributes := (name, v) # filter (\<lambda>kv. fst kv \<noteq> name) (attributes e)\<rparr>"

definition removeAttribute :: "string \<Rightarrow> element \<Rightarrow> element" where
  "removeAttribute name e = e\<lparr>attributes := filter (\<lambda>kv. fst kv \<noteq> name) (attributes e)\<rparr>"

definition hasAttribute :: "string \<Rightarrow> element \<Rightarrow> bool" where
  "hasAttribute name e = (name \<in> set (map fst (attributes e)))"

subsection \<open>Animation steps, timelines and scroll bindings\<close>

text \<open>
  Times are integers in milliseconds (\<^verbatim>\<open>duration: 1\<close> is 1000, \<^verbatim>\<open>stagger: 0.02\<close> is 20,
  \<^verbatim>\<open>"-=0.5"\<close> is \<open>FromEnd (- 500)\<close>). A step animates a selector or the pieces a
  \<^verbatim>\<open>SplitText\<close> made of a selector (\<^verbatim>\<open>titleSplit.chars\<close>, \<^verbatim>\<open>paragraphSplit.words\<close>).
  Property values are kept as the source writes them; the two values FlavorSlider computes
  from the scroll width keep their integer.
\<close>

datatype split_type = Chars | Words | WordsLines

datatype target = Selector selector | SplitChars selector | SplitWords selector

datatype prop_value = Lit string | NegPx int

datatype tween_kind = To | From

text \<open>
  The third argument of \<^verbatim>\<open>tl.to\<close> and \<^verbatim>\<open>tl.from\<close>: absent, \<^verbatim>\<open>"-=0.5"\<close> (half a second
  before the end of the timeline) or \<^verbatim>\<open>"<"\<close> (the start of the previous step).
\<close>

datatype position = Append | FromEnd int | WithPrevious

record step =
  kind :: tween_kind
  targets :: target
  vars :: "(string \<times> prop_value) list"
  duration :: "int option"
  stagger :: int
  at_position :: position

datatype scrub_mode = NoScrub | Scrub | ScrubSmooth int

datatype scroll_pos = Pos string | PlusPx int | TopPercent int

record scrollTrigger =
  trigger :: selector
  start_at :: scroll_pos
  end_at :: "scroll_pos option"
  scrub :: scrub_mode
  pin :: bool

datatype gsap_object =
    SplitText selector split_type "string option"
  | Timeline int "scrollTrigger option" "step list"
  | Tween step "scrollTrigger option"
  | SetProps selector "(string \<times> prop_value) list"

text \<open>
  What a section works on: the elements of the page and the engine objects its
  \<^verbatim>\<open>useGSAP\<close> callback has created so far, in creation order.
\<close>

record page =
  elements :: "element list"
  constructed :: "gsap_object list"

definition empty_page :: page where
  "empty_page = \<lparr>elements = [], constructed = []\<rparr>"

text \<open>
  \<^verbatim>\<open>SplitText.create(selector, {type, linesClass})\<close>. Its effect on the attributes is
  taken from the comment of MessageSection and NutritionSection: ``Remove aria-label
  attributes added by SplitText [...] SplitText automatically adds these''.
\<close>

definition SplitText_create :: "selector \<Rightarrow> split_type \<Rightarrow> string option \<Rightarrow> page \<Rightarrow> page" where
  "SplitText_create sel ty linesClass pg =
     pg\<lparr>elements :=
          map (\<lambda>e. if matches sel e then setAttribute ''aria-label'' (text_content e) e else e)
            (elements pg),
        constructed := constructed pg @ [SplitText sel ty linesClass]\<rparr>"

text \<open>\<^verbatim>\<open>document.querySelectorAll(sel).forEach((el) => el.removeAttribute(name))\<close>\<close>

definition forEach_removeAttribute :: "selector \<Rightarrow> string \<Rightarrow> page \<Rightarrow> page" where
  "forEach_removeAttribute sel name pg =
     pg\<lparr>elements := map (\<lambda>e. if matches sel e then removeAttribute name e else e) (elements pg)\<rparr>"

text \<open>
  \<^verbatim>\<open>gsap.timeline({delay, scrollTrigger})\<close> with the steps chained on it,
  \<^verbatim>\<open>gsap.to\<close>/\<^verbatim>\<open>gsap.from\<close> outside a timeline, and \<^verbatim>\<open>gsap.set\<close>.
\<close>

definition gsap_timeline :: "int \<Rightarrow> scrollTrigger option \<Rightarrow> step list \<Rightarrow> page \<Rightarrow> page" where
  "gsap_timeline delay st steps pg = pg\<lparr>constructed := constructed pg @ [Timeline delay st steps]\<rparr>"

definition gsap_tween :: "step \<Rightarrow> scrollTrigger option \<Rightarrow> page \<Rightarrow> page" where
  "gsap_tween s st pg = pg\<lparr>constructed := constructed pg @ [Tween s st]\<rparr>"

definition gsap_set :: "selector \<Rightarrow> (string \<times> prop_value) list \<Rightarrow> page \<Rightarrow> page" where
  "gsap_set sel ps pg = pg\<lparr>constructed := constructed pg @ [SetProps sel ps]\<rparr>"

definition tween :: "tween_kind \<Rightarrow> target \<Rightarrow> (string \<times> prop_value) list \<Rightarrow> int option \<Rightarrow> int
    \<Rightarrow> position \<Rightarrow> step" where
  "tween k t vs d sg p =
     \<lparr>kind = k, targets = t, vars = vs, duration = d, stagger = sg, at_position = p\<rparr>"

definition on_scroll :: "selector \<Rightarrow> scroll_pos \<Rightarrow> scroll_pos option \<Rightarrow> scrub_mode \<Rightarrow> bool
    \<Rightarrow> scrollTrigger" where
  "on_scroll tr s e sc p = \<lparr>trigger = tr, start_at = s, end_at = e, scrub = sc, pin = p\<rparr>"

definition full_polygon :: prop_value where
  "full_polygon = Lit ''polygon(0% 0%, 100% 0%, 100% 100%, 0% 100%)''"

section \<open>The setup callbacks of the sections\<close>

text \<open>
  Each definition is the body of the callback the component passes to \<^verbatim>\<open>useGSAP\<close>, with
  the values the callback reads from the component as parameters.
\<close>

subsection \<open>HeroSection (\<^verbatim>\<open>src/sections/HeroSection.jsx\<close>, lines 34 to 92)\<close>

definition hero_steps :: "step list" where
  "hero_steps =
     [tween To (Selector (cls ''hero-content''))
        [(''opacity'', Lit ''1''), (''y'', Lit ''0''), (''ease'', Lit ''power1.inOut'')]
        None 0 Append,
      tween To (Selector (cls ''hero-text-scroll''))
        [(''clipPath'', full_polygon), (''ease'', Lit ''circ.out'')]
        (Some 1000) 0 (FromEnd (- 500)),
      tween From (SplitChars (cls ''hero-title''))
        [(''yPercent'', Lit ''200''), (''ease'', Lit ''power2.out'')]
        None 20 (FromEnd (- 500))]"

definition hero_setup :: "bool \<Rightarrow> page \<Rightarrow> page" where
  "hero_setup loaded pg =
     (if \<not> loaded then pg
      else
        let pg1 = SplitText_create (cls ''hero-title'') Chars None pg;
            pg2 = gsap_timeline 1000 None hero_steps pg1;
            pg3 = gsap_timeline 0
                    (Some (on_scroll (cls ''hero-container'') (Pos ''1% top'')
                       (Some (Pos ''bottom top'')) Scrub False))
                    [tween To (Selector (cls ''hero-container''))
                       [(''rotate'', Lit ''7''), (''scale'', Lit ''0.9''),
                        (''yPercent'', Lit ''30''), (''ease'', Lit ''power1.inOut'')]
                       None 0 Append]
                    pg2
        in pg3)"

subsection \<open>FlavorTitle (\<^verbatim>\<open>src/components/FlavorTitle.jsx\<close>, lines 30 to 73)\<close>

definition flavorTitle_setup :: "bool \<Rightarrow> page \<Rightarrow> page" where
  "flavorTitle_setup loaded pg =
     (if \<not> loaded then pg
      else
        let pg1 = SplitText_create (Descendant ''first-text-split'' (Tag ''h1'')) Chars None pg;
            pg2 = SplitText_create (Descendant ''second-text-split'' (Tag ''h1'')) Chars None pg1;
            pg3 = gsap_tween
                    (tween From (SplitChars (Descendant ''first-text-split'' (Tag ''h1'')))
                       [(''yPercent'', Lit ''200''), (''ease'', Lit ''power1.inOut'')]
                       None 20 Append)
                    (Some (on_scroll (cls ''flavor-section'') (Pos ''top 30%'') None NoScrub False))
                    pg2;
            pg4 = gsap_tween
                    (tween To (Selector (cls ''flavor-text-scroll''))
                       [(''clipPath'', full_polygon)] (Some 1000) 0 Append)
                    (Some (on_scroll (cls ''flavor-section'') (Pos ''top 10%'') None NoScrub False))
                    pg3;
            pg5 = gsap_tween
                    (tween From (SplitChars (Descendant ''second-text-split'' (Tag ''h1'')))
                       [(''yPercent'', Lit ''200''), (''ease'', Lit ''power1.inOut'')]
                       None 20 Append)
                    (Some (on_scroll (cls ''flavor-section'') (Pos ''top 1%'') None NoScrub False))
                    pg4
        in pg5)"

subsection \<open>MessageSection (\<^verbatim>\<open>unnamed/part_005\<close>, lines 26 to 106)\<close>

definition message_setup :: "bool \<Rightarrow> page \<Rightarrow> page" where
  "message_setup loaded pg =
     (if \<not> loaded then pg
      else
        let pg1 = SplitText_create (cls ''first-message'') Words None pg;
            pg2 = SplitText_create (cls ''second-message'') Words None pg1;
            pg3 = SplitText_create (Descendant ''message-content'' (Tag ''p'')) WordsLines
                    (Some ''paragraph-line'') pg2;
            pg4 = forEach_removeAttribute (Descendant ''message-content'' (HasAttribute ''aria-label''))
                    ''aria-label'' pg3;
            pg5 = gsap_tween
                    (tween To (SplitWords (cls ''first-message''))
                       [(''color'', Lit ''#faeade''), (''ease'', Lit ''power1.in'')] None 1000 Append)
                    (Some (on_scroll (cls ''message-content'') (Pos ''top center'')
                       (Some (Pos ''30% center'')) Scrub False))
                    pg4;
            pg6 = gsap_tween
                    (tween To (SplitWords (cls ''second-message''))
                       [(''color'', Lit ''#faeade''), (''ease'', Lit ''power1.in'')] None 1000 Append)
                    (Some (on_scroll (cls ''second-message'') (Pos ''top center'')
                       (Some (Pos ''bottom center'')) Scrub False))
                    pg5;
            pg7 = gsap_timeline 1000
                    (Some (on_scroll (cls ''msg-text-scroll'') (Pos ''top 60%'') None NoScrub False))
                    [tween To (Selector (cls ''msg-text-scroll''))
                       [(''clipPath'', full_polygon), (''ease'', Lit ''circ.inOut'')]
                       (Some 1000) 0 Append]
                    pg6;
            pg8 = gsap_timeline 0
                    (Some (on_scroll (Descendant ''message-content'' (Tag ''p'')) (Pos ''top center'')
                       None NoScrub False))
                    [tween From (SplitWords (Descendant ''message-content'' (Tag ''p'')))
                       [(''yPercent'', Lit ''300''), (''rotate'', Lit ''3''),
                        (''ease'', Lit ''power1.inOut'')]
                       (Some 1000) 10 Append]
                    pg7
        in pg8)"

subsection \<open>NutritionSection (\<^verbatim>\<open>unnamed/part_005\<close>, lines 204 to 264)\<close>

text \<open>
  The callback does not read \<^verbatim>\<open>isMobile\<close>; the component lists it among the
  dependencies it passes to \<^verbatim>\<open>useGSAP\<close>.
\<close>

definition nutrition_setup :: "bool \<Rightarrow> page \<Rightarrow> page" where
  "nutrition_setup loaded pg =
     (if \<not> loaded then pg
      else
        let pg1 = SplitText_create (cls ''nutrition-title'') Chars None pg;
            pg2 = SplitText_create (Descendant ''nutrition-section'' (Tag ''p'')) WordsLines
                    (Some ''paragraph-line'') pg1;
            pg3 = forEach_removeAttribute
                    (Descendant ''nutrition-section'' (HasAttribute ''aria-label'')) ''aria-label'' pg2;
            pg4 = gsap_timeline 0
                    (Some (on_scroll (cls ''nutrition-section'') (Pos ''top center'') None NoScrub False))
                    [tween From (SplitChars (cls ''nutrition-title''))
                       [(''yPercent'', Lit ''100''), (''ease'', Lit ''power2.out'')] None 20 Append,
                     tween From (SplitWords (Descendant ''nutrition-section'' (Tag ''p'')))
                       [(''yPercent'', Lit ''300''), (''rotate'', Lit ''3''),
                        (''ease'', Lit ''power1.inOut'')]
                       (Some 1000) 10 Append]
                    pg3;
            pg5 = gsap_timeline 0
                    (Some (on_scroll (cls ''nutrition-section'') (Pos ''top 80%'') None NoScrub False))
                    [tween To (Selector (cls ''nutrition-text-scroll''))
                       [(''opacity'', Lit ''1''),
                        (''clipPath'', Lit ''polygon(100% 0, 0 0, 0 100%, 100% 100%)''),
                        (''ease'', Lit ''power1.inOut'')]
                       (Some 1000) 0 Append]
                    pg4
        in pg5)"

subsection \<open>FlavorSlider (\<^verbatim>\<open>unnamed/part_001\<close>, lines 36 to 92)\<close>

text \<open>
  \<^verbatim>\<open>isTablet\<close> is \<^verbatim>\<open>useMediaQuery({query: "(max-width: 1024px)"})\<close>; the callback also
  reads \<^verbatim>\<open>sliderRef.current.scrollWidth\<close> and \<^verbatim>\<open>window.innerWidth\<close>.
\<close>

definition max_width :: "int \<Rightarrow> int \<Rightarrow> bool" where
  "max_width breakpoint width = (width \<le> breakpoint)"

definition flavorSlider_setup :: "bool \<Rightarrow> int \<Rightarrow> int \<Rightarrow> page \<Rightarrow> page" where
  "flavorSlider_setup isTablet scrollWidth innerWidth pg =
     (let scrollAmount = scrollWidth - innerWidth;
          pg1 = (if \<not> isTablet
                 then gsap_timeline 0
                        (Some (on_scroll (cls ''flavor-section'') (Pos ''2% top'')
                           (Some (PlusPx (scrollAmount + 1500))) Scrub True))
                        [tween To (Selector (cls ''flavor-section''))
                           [(''x'', NegPx (scrollAmount + 1500)), (''ease'', Lit ''power1.inOut'')]
                           None 0 Append]
                        pg
                 else pg);
          pg2 = gsap_timeline 0
                  (Some (on_scroll (cls ''flavor-section'') (Pos ''top top'')
                     (Some (Pos ''bottom 80%'')) Scrub False))
                  [tween To (Selector (cls ''first-text-split''))
                     [(''xPercent'', Lit ''-30''), (''ease'', Lit ''power1.inOut'')] None 0 Append,
                   tween To (Selector (cls ''flavor-text-scroll''))
                     [(''xPercent'', Lit ''-22''), (''ease'', Lit ''power1.inOut'')] None 0 WithPrevious,
                   tween To (Selector (cls ''second-text-split''))
                     [(''xPercent'', Lit ''-10''), (''ease'', Lit ''power1.inOut'')] None 0 WithPrevious]
                  pg1
      in pg2)"

subsection \<open>BenefitSection (\<^verbatim>\<open>unnamed/part_004\<close>, lines 29 to 71)\<close>

definition benefit_reveal :: "string \<Rightarrow> step" where
  "benefit_reveal title =
     tween To (Selector (Descendant ''benefit-section'' (Class title)))
       [(''opacity'', Lit ''1''),
        (''clipPath'', Lit ''polygon(0% 0%, 100% 0, 100% 100%, 0% 100%)''),
        (''ease'', Lit ''circ.out'')]
       (Some 1000) 0 Append"

definition benefit_setup :: "page \<Rightarrow> page" where
  "benefit_setup pg =
     gsap_timeline 1000
       (Some (on_scroll (cls ''benefit-section'') (Pos ''top 60%'') (Some (Pos ''top top''))
          (ScrubSmooth 1500) False))
       [benefit_reveal ''first-title'', benefit_reveal ''second-title'',
        benefit_reveal ''third-title'', benefit_reveal ''fourth-title'']
       pg"

subsection \<open>VideoPinSection (\<^verbatim>\<open>unnamed/part_002\<close>, lines 33 to 53)\<close>

definition videoPin_setup :: "bool \<Rightarrow> page \<Rightarrow> page" where
  "videoPin_setup isMobile pg =
     (if \<not> isMobile
      then gsap_timeline 0
             (Some (on_scroll (cls ''vd-pin-section'') (Pos ''-15% top'') (Some (Pos ''200% top''))
                (ScrubSmooth 1500) True))
             [tween To (Selector (cls ''video-box''))
                [(''clipPath'', Lit ''circle(100% at 50% 50%)''), (''ease'', Lit ''power1.inOut'')]
                None 0 Append]
             pg
      else pg)"

subsection \<open>TestimonialSection (\<^verbatim>\<open>src/sections/TestimonialSection.jsx\<close>, lines 44 to 155)\<close>

text \<open>
  \<^verbatim>\<open>cards\<close> is imported from \<^verbatim>\<open>../constants\<close>, which is not among the sources; it is a
  parameter. The callback uses only the indices of the cards. The older copy of the
  component in \<^verbatim>\<open>unnamed/part_006\<close> (lines 13 to 119) differs from this one only in the
  duration of the per-card tween (\<^verbatim>\<open>1\<close> instead of \<^verbatim>\<open>0.5\<close>).
\<close>

record card =
  card_src :: string
  translation :: string
  rotation :: string

definition title_step :: "tween_kind \<Rightarrow> string \<Rightarrow> (string \<times> prop_value) list \<Rightarrow> position \<Rightarrow> step" where
  "title_step k title vs p =
     tween k (Selector (Descendant ''testimonials-section'' (Class title))) vs None 0 p"

definition card_tween :: "nat \<Rightarrow> page \<Rightarrow> page" where
  "card_tween index pg =
     gsap_tween
       (tween To (Selector (NthChild ''vd-card'' (index + 1)))
          [(''yPercent'', Lit ''0''), (''opacity'', Lit ''1''), (''ease'', Lit ''power1.inOut'')]
          (Some 500) 0 Append)
       (Some (on_scroll (cls ''testimonials-section'') (TopPercent (80 - int index * 10))
          (Some (TopPercent (60 - int index * 10))) (ScrubSmooth 1000) False))
       pg"

definition testimonial_setup :: "bool \<Rightarrow> card list \<Rightarrow> page \<Rightarrow> page" where
  "testimonial_setup isMobile cards pg =
     (let pg1 = (if \<not> isMobile
                 then gsap_set (cls ''testimonials-section'') [(''marginTop'', Lit ''-140vh'')] pg
                 else gsap_set (cls ''vd-card'')
                        [(''yPercent'', Lit ''150''), (''opacity'', Lit ''0'')] pg)
      in if \<not> isMobile
         then
           let pg2 = gsap_timeline 0
                       (Some (on_scroll (cls ''testimonials-section'') (Pos ''top bottom'')
                          (Some (Pos ''200% top'')) Scrub False))
                       [title_step To ''first-title'' [(''xPercent'', Lit ''70'')] Append,
                        title_step To ''sec-title'' [(''xPercent'', Lit ''25'')] WithPrevious,
                        title_step To ''third-title'' [(''xPercent'', Lit ''-50'')] WithPrevious]
                       pg1;
               pg3 = gsap_timeline 0
                       (Some (on_scroll (cls ''testimonials-section'') (Pos ''10% top'')
                          (Some (Pos ''200% top'')) (ScrubSmooth 1500) True))
                       [tween From (Selector (cls ''vd-card''))
                          [(''yPercent'', Lit ''150''), (''ease'', Lit ''power1.inOut'')]
                          None 200 Append]
                       pg2
           in pg3
         else
           let pg2 = gsap_timeline 0
                       (Some (on_scroll (cls ''testimonials-section'') (Pos ''top 80%'')
                          (Some (Pos ''bottom 20%'')) (ScrubSmooth 1000) False))
                       [title_step From ''first-title''
                          [(''xPercent'', Lit ''70''), (''opacity'', Lit ''0'')] Append,
                        title_step From ''sec-title''
                          [(''xPercent'', Lit ''25''), (''opacity'', Lit ''0'')] WithPrevious,
                        title_step From ''third-title''
                          [(''xPercent'', Lit ''-50''), (''opacity'', Lit ''0'')] WithPrevious]
                       pg1
           in fold card_tween [0..<length cards] pg2)"

subsection \<open>The hover handlers (\<^verbatim>\<open>src/sections/TestimonialSection.jsx\<close>, lines 158 to 166)\<close>

text \<open>
  \<^verbatim>\<open>vdRef.current\<close> is an array filled by the ref callbacks
  \<^verbatim>\<open>ref={(el) => (vdRef.current[index] = el)}\<close>. An entry that is \<^verbatim>\<open>null\<close>, or an index
  the array does not have, reads as \<open>None\<close>; calling a method on it throws a
  \<^verbatim>\<open>TypeError\<close>. Of a video element only whether it is paused is kept.
\<close>

record video =
  video_src :: string
  paused :: bool

datatype js_error = TypeError

type_synonym refs = "video option list"

definition ref_at :: "refs \<Rightarrow> nat \<Rightarrow> video option" where
  "ref_at r index = (if index < length r then r ! index else None)"

definition set_ref :: "refs \<Rightarrow> nat \<Rightarrow> video option \<Rightarrow> refs" where
  "set_ref r index v =
     (if index < length r then r[index := v]
      else r @ replicate (index - length r) None @ [v])"

definition play :: "video \<Rightarrow> video" where
  "play v = v\<lparr>paused := False\<rparr>"

definition pause :: "video \<Rightarrow> video" where
  "pause v = v\<lparr>paused := True\<rparr>"

definition handlePlay :: "nat \<Rightarrow> refs \<Rightarrow> js_error + refs" where
  "handlePlay index r =
     (case ref_at r index of
        None \<Rightarrow> Inl TypeError
      | Some video \<Rightarrow> Inr (r[index := Some (play video)]))"

definition handlePause :: "nat \<Rightarrow> refs \<Rightarrow> js_error + refs" where
  "handlePause index r =
     (case ref_at r index of
        None \<Rightarrow> Inl TypeError
      | Some video \<Rightarrow> Inr (r[index := Some (pause video)]))"

text \<open>
  Rendering the cards (lines 180 to 197): one \<^verbatim>\<open>video\<close> element per card, not playing
  (the element has no \<^verbatim>\<open>autoPlay\<close>), each stored at its card's index.
\<close>

definition mount_refs :: "card list \<Rightarrow> refs" where
  "mount_refs cards =
     fold (\<lambda>index r. set_ref r index (Some \<lparr>video_src = card_src (cards ! index), paused = True\<rparr>))
       [0..<length cards] []"

section \<open>Reading a timeline: targets and start offsets\<close>

text \<open>
  The number of elements a step animates: the elements its selector matches, or the
  characters (spaces apart) or words of the text of the elements that were split.
\<close>

definition char_count :: "string \<Rightarrow> nat" where
  "char_count txt = length (filter (\<lambda>c. c \<noteq> CHR '' '') txt)"

fun count_words :: "bool \<Rightarrow> string \<Rightarrow> nat" where
  "count_words in_word [] = 0"
| "count_words in_word (c # cs) =
     (if c = CHR '' '' then count_words False cs
      else (if in_word then 0 else 1) + count_words True cs)"

fun resolve :: "element list \<Rightarrow> target \<Rightarrow> nat" where
  "resolve es (Selector sel) = length (querySelectorAll sel es)"
| "resolve es (SplitChars sel) = sum_list (map (\<lambda>e. char_count (text_content e)) (querySelectorAll sel es))"
| "resolve es (SplitWords sel) =
     sum_list (map (\<lambda>e. count_words False (text_content e)) (querySelectorAll sel es))"



text \<open>
  Where the steps of a timeline start and end, relative to the start of the timeline.
  A step without a position argument starts at the end of the timeline built so far; the
  sources annotate the two other forms themselves: \<^verbatim>\<open>"-=0.5"\<close> is ``Start 0.5s before
  previous animation ends'' and \<^verbatim>\<open>"<"\<close> is ``Start at the same time as previous
  animation''. A step over \<open>n\<close> targets with a stagger lasts its duration plus
  \<open>n - 1\<close> staggers. A step that gives no duration takes the engine's default, a
  parameter here; the engine's documented default is half a second.
\<close>

type_synonym span = "int \<times> int"

definition timeline_end :: "span list \<Rightarrow> int" where
  "timeline_end placed = fold (\<lambda>sp m. max (snd sp) m) placed 0"

definition place :: "position \<Rightarrow> span list \<Rightarrow> int" where
  "place p placed =
     (case p of
        Append \<Rightarrow> timeline_end placed
      | FromEnd delta \<Rightarrow> timeline_end placed + delta
      | WithPrevious \<Rightarrow> (if placed = [] then 0 else fst (last placed)))"

definition total_duration :: "int \<Rightarrow> nat \<Rightarrow> step \<Rightarrow> int" where
  "total_duration dflt n st =
     (case duration st of None \<Rightarrow> dflt | Some d \<Rightarrow> d) + stagger st * int (n - 1)"

fun schedule_from :: "int \<Rightarrow> element list \<Rightarrow> span list \<Rightarrow> step list \<Rightarrow> span list" where
  "schedule_from dflt es placed [] = placed"
| "schedule_from dflt es placed (st # sts) =
     (let start = place (at_position st) placed;
          stop = start + total_duration dflt (resolve es (targets st)) st
      in schedule_from dflt es (placed @ [(start, stop)]) sts)"

definition schedule :: "int \<Rightarrow> element list \<Rightarrow> step list \<Rightarrow> span list" where
  "schedule dflt es sts = schedule_from dflt es [] sts"

definition default_duration :: int where
  "default_duration = 500"

definition pinned :: "gsap_object \<Rightarrow> bool" where
  "pinned obj =
     (case obj of
        Timeline delay (Some st) sts \<Rightarrow> pin st
      | Tween s (Some st) \<Rightarrow> pin st
      | _ \<Rightarrow> False)"

definition is_split :: "gsap_object \<Rightarrow> bool" where
  "is_split obj = (case obj of SplitText sel ty lc \<Rightarrow> True | _ \<Rightarrow> False)"

definition is_timeline :: "gsap_object \<Rightarrow> bool" where
  "is_timeline obj = (case obj of Timeline delay st sts \<Rightarrow> True | _ \<Rightarrow> False)"

section \<open>Sections under the \<^verbatim>\<open>useGSAP\<close> hook\<close>

text \<open>
  What a component reads on a render, and, per section, the callback and the dependency
  list it passes to \<^verbatim>\<open>useGSAP\<close>: \<^verbatim>\<open>[fontsLoaded]\<close> in HeroSection, MessageSection and
  FlavorTitle, \<^verbatim>\<open>[fontsLoaded, isMobile]\<close> in NutritionSection, and no second argument
  at all in FlavorSlider, BenefitSection, VideoPinSection and TestimonialSection.
\<close>

record inputs =
  in_fontsLoaded :: bool
  in_isMobile :: bool
  in_isTablet :: bool
  in_scrollWidth :: int
  in_innerWidth :: int
  in_cards :: "card list"

datatype component =
    HeroSection | MessageSection | FlavorTitle | FlavorSlider
  | NutritionSection | BenefitSection | VideoPinSection | TestimonialSection


fun callback_of :: "component \<Rightarrow> inputs \<Rightarrow> page \<Rightarrow> page" where
  "callback_of HeroSection i = hero_setup (in_fontsLoaded i)"
| "callback_of MessageSection i = message_setup (in_fontsLoaded i)"
| "callback_of FlavorTitle i = flavorTitle_setup (in_fontsLoaded i)"
| "callback_of FlavorSlider i = flavorSlider_setup (in_isTablet i) (in_scrollWidth i) (in_innerWidth i)"
| "callback_of NutritionSection i = nutrition_setup (in_fontsLoaded i)"
| "callback_of BenefitSection i = benefit_setup"
| "callback_of VideoPinSection i = videoPin_setup (in_isMobile i)"
| "callback_of TestimonialSection i = testimonial_setup (in_isMobile i) (in_cards i)"






definition mount :: "component \<Rightarrow> inputs \<Rightarrow> page \<Rightarrow> page" where
  "mount sec i pg = callback_of sec i pg"


section \<open>The markup the components render\<close>

text \<open>
  The elements of the JSX the components return, in document order; of the attributes
  only \<^verbatim>\<open>src\<close> and \<^verbatim>\<open>alt\<close> are kept, and of the elements around a FlavorTitle
  only the section. They are the concrete pages the setup callbacks are run on below.
\<close>

definition el :: "string \<Rightarrow> string list \<Rightarrow> string list \<Rightarrow> nat \<Rightarrow> string \<Rightarrow> element" where
  "el t cs anc k txt =
     \<lparr>tag = t, classes = cs, ancestors = anc, nth_child = k, text_content = txt, attributes = []\<rparr>"

definition hero_media :: "bool \<Rightarrow> bool \<Rightarrow> element list" where
  "hero_media isMobile isTablet =
     (let anc = [''bg-main-bg'', ''hero-container'']
      in if isTablet
         then (if isMobile
               then [(el ''img'' [''absolute'', ''bottom-40'', ''size-full'', ''object-cover''] anc 1 [])
                       \<lparr>attributes := [(''src'', ''/images/hero-bg.png''),
                                        (''alt'', ''Background image of Spylt drinks'')]\<rparr>]
               else [])
              @ [(el ''img'' [''absolute'', ''bottom-0'', ''left-1/2'', ''-translate-x-1/2'',
                              ''object-contain'', ''object-bottom''] anc (if isMobile then 2 else 1) [])
                   \<lparr>attributes := [(''src'', ''/images/hero-img.png''), (''alt'', ''Spylt drinks'')]\<rparr>]
         else [(el ''video'' [''absolute'', ''inset-0'', ''w-full'', ''h-full'', ''object-cover''] anc 1 [])
                 \<lparr>attributes := [(''src'', ''/videos/hero-bg.mp4'')]\<rparr>])"

definition hero_markup :: "bool \<Rightarrow> bool \<Rightarrow> element list" where
  "hero_markup isMobile isTablet =
     (let media = hero_media isMobile isTablet;
          a2 = [''bg-main-bg'', ''hero-container''];
          a3 = a2 @ [''hero-content'', ''opacity-0'']
      in [el ''section'' [''bg-main-bg''] [] 1 [],
          el ''div'' [''hero-container''] [''bg-main-bg''] 1 []]
         @ media
         @ [el ''div'' [''hero-content'', ''opacity-0''] a2 (length media + 1) [],
            el ''div'' [''overflow-hidden''] a3 1 [],
            el ''h1'' [''hero-title'', ''text-center''] (a3 @ [''overflow-hidden'']) 1
              ''Freaking Delicious'',
            el ''div'' [''hero-text-scroll''] a3 2 [],
            el ''div'' [''hero-subtitle''] (a3 @ [''hero-text-scroll'']) 1 [],
            el ''h1'' [] (a3 @ [''hero-text-scroll'', ''hero-subtitle'']) 1 ''Protein + Caffine '',
            el ''h2'' [] a3 3
              (''Live life to the fullest with SPYLT: Shatter boredom and embrace ''
               @ ''your inner kid with every deliciously smooth chug.''),
            el ''div'' [''hero-button''] a3 4 [],
            el ''p'' [] (a3 @ [''hero-button'']) 1 ''Chug a SPYLT''])"

definition flavorTitle_markup :: "element list" where
  "flavorTitle_markup =
     (let root = [''general-title'', ''col-center'', ''h-full'', ''2xl:gap-32'', ''xl:gap-24'',
                  ''gap-16''];
          a1 = ''flavor-section'' # root;
          box = [''overflow-hidden'', ''2xl:py-0'', ''py-3''];
          inner = [''bg-mid-brown'', ''pb-5'', ''2xl:pt-0'', ''pt-3'', ''2xl:px-5'', ''px-3'']
      in [el ''div'' root [''flavor-section''] 1 [],
          el ''div'' (box @ [''first-text-split'']) a1 1 [],
          el ''h1'' [] (a1 @ box @ [''first-text-split'']) 1 ''We have 6'',
          el ''div'' [''flavor-text-scroll''] a1 2 [],
          el ''div'' inner (a1 @ [''flavor-text-scroll'']) 1 [],
          el ''h2'' [''text-milk''] (a1 @ ''flavor-text-scroll'' # inner) 1 ''freaking'',
          el ''div'' (box @ [''second-text-split'']) a1 3 [],
          el ''h1'' [] (a1 @ box @ [''second-text-split'']) 1 ''delicious flavors''])"

definition message_markup :: "element list" where
  "message_markup =
     (let a1 = [''message-content''];
          a2 = a1 @ [''container'', ''mx-auto'', ''flex-center'', ''py-28'', ''relative''];
          a3 = a2 @ [''w-full'', ''h-full''];
          a4 = a3 @ [''msg-wrapper''];
          a5 = a3 @ [''flex-center'', ''md:mt-20'', ''mt-10'']
      in [el ''section'' [''message-content''] [] 1 [],
          el ''div'' [''container'', ''mx-auto'', ''flex-center'', ''py-28'', ''relative''] a1 1 [],
          el ''div'' [''w-full'', ''h-full''] a2 1 [],
          el ''div'' [''msg-wrapper''] a3 1 [],
          el ''h1'' [''first-message''] a4 1 ''Stir up your fearless past and'',
          el ''div'' [''msg-text-scroll''] a4 2 [],
          el ''div'' [''bg-light-brown'', ''md:pb-5'', ''pb-3'', ''px-5''] (a4 @ [''msg-text-scroll'']) 1 [],
          el ''h2'' [''text-red-brown'']
            (a4 @ [''msg-text-scroll'', ''bg-light-brown'', ''md:pb-5'', ''pb-3'', ''px-5'']) 1 ''Fuel Up'',
          el ''h1'' [''second-message''] a4 3 ''your future with every gulp of Perfect Protein'',
          el ''div'' [''flex-center'', ''md:mt-20'', ''mt-10''] a3 2 [],
          el ''div'' [''max-w-md'', ''px-10'', ''flex-center'', ''overflow-hidden''] a5 1 [],
          el ''p'' [] (a5 @ [''max-w-md'', ''px-10'', ''flex-center'', ''overflow-hidden'']) 1
            (''Rev up your rebel spirit and feed the adventure of life with ''
             @ ''SPYLT, where you're one chug away from epic nostalgia and fearless fun.'')])"

definition labelled :: "page \<Rightarrow> element list" where
  "labelled pg = filter (hasAttribute ''aria-label'') (elements pg)"

text \<open>Inputs of a desktop and of a tablet render, and three cards.\<close>

definition three_cards :: "card list" where
  "three_cards =
     [\<lparr>card_src = ''/videos/f1.mp4'', translation = ''t1'', rotation = ''r1''\<rparr>,
      \<lparr>card_src = ''/videos/f2.mp4'', translation = ''t2'', rotation = ''r2''\<rparr>,
      \<lparr>card_src = ''/videos/f3.mp4'', translation = ''t3'', rotation = ''r3''\<rparr>]"

definition render_at :: "bool \<Rightarrow> int \<Rightarrow> inputs" where
  "render_at loaded width =
     \<lparr>in_fontsLoaded = loaded, in_isMobile = max_width 768 width, in_isTablet = max_width 1024 width,
      in_scrollWidth = 6000, in_innerWidth = width, in_cards = three_cards\<rparr>"

section \<open>Predicates used in the statements\<close>

text \<open>
  The invariant of the hook: at most one callback is pending, and \<^verbatim>\<open>setFontsLoaded\<close> has
  been called exactly once if the state is true and never if it is false.
\<close>

definition hook_inv :: "hook_state \<Rightarrow> bool" where
  "hook_inv s =
     (length (pending s) \<le> 1
      \<and> (if fontsLoaded s then pending s = [] \<and> set_calls s = 1 else set_calls s = 0))"




section \<open>The readiness latch\<close>

lemma inv_initial: "hook_inv initial"
  by (simp add: hook_inv_def initial_def)

lemma inv_checkFonts:
  "pending s = [] \<Longrightarrow> \<not> fontsLoaded s \<Longrightarrow> set_calls s = 0 \<Longrightarrow> hook_inv (checkFonts d s)"
  by (simp add: hook_inv_def checkFonts_def setTimeout_def setFontsLoaded_def Let_def
      split: option.splits)

lemma inv_effect: "hook_inv (useEffect_body d initial)"
proof -
  have c: "hook_inv (checkFonts d initial)"
    by (rule inv_checkFonts) (simp_all add: initial_def)
  have p: "hook_inv (promise_then pr cb initial)" for pr cb
    by (cases pr) (simp_all add: promise_then_def hook_inv_def initial_def)
  show ?thesis by (simp add: useEffect_body_def c p split: option.splits)
qed

lemma inv_tick: "hook_inv s \<Longrightarrow> hook_inv (tick d s)"
proof -
  assume h: "hook_inv s"
  show ?thesis
  proof (cases "pending s")
    case Nil
    then show ?thesis using h by (simp add: tick_def)
  next
    case (Cons x rest)
    obtain t cb where x: "x = (t, cb)" by (cases x)
    from h Cons have r: "rest = []" and nl: "\<not> fontsLoaded s" and sc: "set_calls s = 0"
      by (auto simp: hook_inv_def split: if_splits)
    let ?s = "s\<lparr>pending := rest, clock := max t (clock s)\<rparr>"
    have "hook_inv (run_callback d cb ?s)"
    proof (cases cb)
      case CheckFonts
      then show ?thesis using r nl sc inv_checkFonts[of ?s d] by simp
    qed (simp_all add: setFontsLoaded_def hook_inv_def r nl sc)
    then show ?thesis using Cons x by (simp add: tick_def)
  qed
qed

lemma inv_state_at: "hook_inv (state_at d n)"
proof (induction n)
  case 0
  show ?case by (simp add: inv_initial)
next
  case (Suc n)
  then show ?case by (cases n) (simp_all add: inv_effect inv_tick)
qed

lemma mono_checkFonts: "fontsLoaded s \<Longrightarrow> fontsLoaded (checkFonts d s)"
  by (simp add: checkFonts_def setTimeout_def setFontsLoaded_def Let_def split: option.splits)

lemma mono_tick: "fontsLoaded s \<Longrightarrow> fontsLoaded (tick d s)"
proof -
  assume h: "fontsLoaded s"
  have "fontsLoaded (run_callback d cb s')" if "fontsLoaded s'" for cb s'
    using that by (cases cb) (simp_all add: setFontsLoaded_def mono_checkFonts)
  then show ?thesis using h by (simp add: tick_def split: list.splits prod.splits)
qed

lemma mono_step: "fontsLoaded (state_at d n) \<Longrightarrow> fontsLoaded (state_at d (Suc n))"
  by (cases n) (simp_all add: initial_def mono_tick)

lemma mono_le: "n \<le> m \<Longrightarrow> fontsLoaded (state_at d n) \<Longrightarrow> fontsLoaded (state_at d m)"
  by (induction m) (auto simp: le_Suc_eq mono_step simp del: state_at.simps)

lemma rises_unique_lt: "m < n \<Longrightarrow> rises d m \<Longrightarrow> \<not> rises d n"
  unfolding rises_def useFontsLoaded_def using mono_le[of "Suc m" n d] by auto

lemma rises_unique: "rises d m \<Longrightarrow> rises d n \<Longrightarrow> m = n"
  using rises_unique_lt[of m n d] rises_unique_lt[of n m d] by (meson nat_neq_iff)

lemma loaded_has_rise: "fontsLoaded (state_at d n) \<Longrightarrow> \<exists>m<n. rises d m"
proof (induction n)
  case 0
  then show ?case by (simp add: initial_def)
next
  case (Suc n)
  show ?case
  proof (cases "fontsLoaded (state_at d n)")
    case True
    with Suc.IH obtain m where "m < n" "rises d m" by blast
    then show ?thesis by (meson less_Suc_eq)
  next
    case False
    with Suc.prems have "rises d n" by (simp add: rises_def useFontsLoaded_def)
    then show ?thesis by blast
  qed
qed

text \<open>
  Claim C1. The value \<^verbatim>\<open>useFontsLoaded\<close> returns is a one-shot latch: it is false on the
  first render, it never goes from true to false, it goes from false to true at most once,
  it has done so by the time any call of \<^verbatim>\<open>setFontsLoaded(true)\<close> has been made, and at
  most one such call is ever made.
\<close>

theorem useFontsLoaded_one_shot_latch:
  "\<not> useFontsLoaded d 0
   \<and> (\<forall>n. \<not> falls d n)
   \<and> (\<forall>m n. rises d m \<longrightarrow> rises d n \<longrightarrow> m = n)
   \<and> (\<forall>n. 0 < set_calls (state_at d n) \<longrightarrow> (\<exists>m<n. rises d m))
   \<and> (\<forall>n. set_calls (state_at d n) \<le> 1)"
proof (intro conjI allI impI)
  show "\<not> useFontsLoaded d 0" by (simp add: useFontsLoaded_def initial_def)
next
  fix n
  show "\<not> falls d n" using mono_step[of d n] by (auto simp: falls_def useFontsLoaded_def)
next
  fix m n
  assume "rises d m" "rises d n"
  then show "m = n" by (rule rises_unique)
next
  fix n
  assume "0 < set_calls (state_at d n)"
  with inv_state_at[of d n] have "fontsLoaded (state_at d n)"
    by (auto simp: hook_inv_def split: if_splits)
  then show "\<exists>m<n. rises d m" by (rule loaded_has_rise)
next
  fix n
  show "set_calls (state_at d n) \<le> 1" using inv_state_at[of d n]
    by (auto simp: hook_inv_def split: if_splits)
qed

text \<open>
  Claim C1, at a browser whose \<^verbatim>\<open>document.fonts.ready\<close> is fulfilled after 50 ms: the
  value rises between observations 1 and 2, after one call of the setter, and neither
  rises earlier nor falls.
\<close>

theorem useFontsLoaded_one_shot_latch_witness:
  "rises (modern_browser 50) 1 \<and> 0 < set_calls (state_at (modern_browser 50) 2)
   \<and> (\<exists>m<2. rises (modern_browser 50) m) \<and> \<not> falls (modern_browser 50) 1
   \<and> \<not> rises (modern_browser 50) 0"
proof -
  have s1: "state_at (modern_browser 50) 1 =
      \<lparr>fontsLoaded = False, pending = [(50, FontsReadyThen)], clock = 0, set_calls = 0\<rparr>"
    by (simp add: modern_browser_def useEffect_body_def promise_then_def initial_def)
  have s2: "state_at (modern_browser 50) 2 =
      \<lparr>fontsLoaded = True, pending = [], clock = 50, set_calls = 1\<rparr>"
    by (simp add: numeral_2_eq_2 modern_browser_def useEffect_body_def promise_then_def
        initial_def tick_def setFontsLoaded_def)
  have r: "rises (modern_browser 50) 1"
    using s1 s2 by (simp add: rises_def useFontsLoaded_def numeral_2_eq_2)
  have c: "0 < set_calls (state_at (modern_browser 50) 2)" using s2 by simp
  have n0: "\<not> rises (modern_browser 50) 0"
    using s1 by (simp add: rises_def useFontsLoaded_def)
  from useFontsLoaded_one_shot_latch[of "modern_browser 50"]
  have "\<not> falls (modern_browser 50) 1"
    and "0 < set_calls (state_at (modern_browser 50) 2) \<longrightarrow> (\<exists>m<2. rises (modern_browser 50) m)"
    by blast+
  with r c n0 show ?thesis by blast
qed

section \<open>The fallback of the hook\<close>

lemma effect_fallback: "promise_unavailable d \<Longrightarrow> useEffect_body d s = checkFonts d s"
  by (simp add: promise_unavailable_def useEffect_body_def split: option.splits)

lemma checkFonts_no_check:
  "font_check d = None \<Longrightarrow> checkFonts d s = setTimeout AssumeLoaded 1000 s"
  by (cases "fonts d") (simp_all add: font_check_def checkFonts_def)

lemma checkFonts_check:
  "font_check d = Some chk \<Longrightarrow>
   checkFonts d s =
     (if both_loaded chk (clock s) then setFontsLoaded True s else setTimeout CheckFonts 100 s)"
  by (cases "fonts d") (simp_all add: font_check_def checkFonts_def both_loaded_def Let_def)

lemma poll_again:
  "font_check d = Some chk \<Longrightarrow> \<not> both_loaded chk (100 * Suc k) \<Longrightarrow>
   tick d (polling k) = polling (Suc k)"
  by (simp add: tick_def checkFonts_check setTimeout_def polling_def)

lemma poll_done:
  "font_check d = Some chk \<Longrightarrow> both_loaded chk (100 * Suc k) \<Longrightarrow>
   tick d (polling k) = \<lparr>fontsLoaded = True, pending = [], clock = 100 * Suc k, set_calls = 1\<rparr>"
  by (simp add: tick_def checkFonts_check setFontsLoaded_def polling_def)

lemma still_polling:
  "promise_unavailable d \<Longrightarrow> font_check d = Some chk \<Longrightarrow>
   \<forall>j\<le>k. \<not> both_loaded chk (100 * j) \<Longrightarrow> state_at d (Suc k) = polling k"
proof (induction k)
  case 0
  then show ?case
    by (simp add: effect_fallback checkFonts_check initial_def setTimeout_def polling_def)
next
  case (Suc k)
  then have "state_at d (Suc k) = polling k" by simp
  moreover have "\<not> both_loaded chk (100 * Suc k)" using Suc.prems(3) by blast
  ultimately show ?case using Suc.prems(2) by (simp add: poll_again)
qed

lemma first_success:
  assumes pu: "promise_unavailable d" and fc: "font_check d = Some chk"
    and before: "\<forall>j<k. \<not> both_loaded chk (100 * j)" and at: "both_loaded chk (100 * k)"
  shows "state_at d (Suc k) = \<lparr>fontsLoaded = True, pending = [], clock = 100 * k, set_calls = 1\<rparr>"
proof (cases k)
  case 0
  then show ?thesis using pu fc at
    by (simp add: effect_fallback checkFonts_check initial_def setFontsLoaded_def)
next
  case (Suc k')
  have "\<forall>j\<le>k'. \<not> both_loaded chk (100 * j)" using before Suc by auto
  then have "state_at d (Suc k') = polling k'" using pu fc by (rule still_polling[rotated 2])
  then show ?thesis using Suc fc at by (simp add: poll_done)
qed

lemma not_yet:
  assumes pu: "promise_unavailable d" and fc: "font_check d = Some chk"
    and before: "\<forall>j<k. \<not> both_loaded chk (100 * j)" and n: "n \<le> k"
  shows "\<not> useFontsLoaded d n"
proof (cases n)
  case 0
  then show ?thesis by (simp add: useFontsLoaded_def initial_def)
next
  case (Suc m)
  have "\<forall>j\<le>m. \<not> both_loaded chk (100 * j)" using before n Suc by auto
  then have "state_at d (Suc m) = polling m" using pu fc by (rule still_polling[rotated 2])
  then show ?thesis using Suc by (simp add: useFontsLoaded_def polling_def)
qed

lemma forced:
  assumes pu: "promise_unavailable d" and fc: "font_check d = None"
  shows "\<not> useFontsLoaded d 1
       \<and> state_at d 2 = \<lparr>fontsLoaded = True, pending = [], clock = 1000, set_calls = 1\<rparr>"
proof -
  have 1: "state_at d (Suc 0) =
      \<lparr>fontsLoaded = False, pending = [(1000, AssumeLoaded)], clock = 0, set_calls = 0\<rparr>"
    using pu fc by (simp add: effect_fallback checkFonts_no_check setTimeout_def initial_def)
  have 2: "state_at d (Suc (Suc 0)) =
      \<lparr>fontsLoaded = True, pending = [], clock = 1000, set_calls = 1\<rparr>"
    by (simp add: 1 tick_def setFontsLoaded_def del: state_at.simps(2))
  show ?thesis using 1 2 by (simp add: useFontsLoaded_def numeral_2_eq_2)
qed

text \<open>
  Claim C2, as amended. When \<^verbatim>\<open>document.fonts.ready\<close> is unavailable, the hook takes one
  of two paths. Without a \<^verbatim>\<open>check\<close> method it arms a single timer, and the state becomes
  true when the timer fires, 1000 ms after the mount, whatever the fonts. With a
  \<^verbatim>\<open>check\<close> method it polls the two named fonts every 100 ms, starting at the mount, and
  the state becomes true at the first poll that finds both loaded and not before.
\<close>

theorem useFontsLoaded_fallback_paths:
  assumes "promise_unavailable d"
  shows "(font_check d = None \<longrightarrow>
            \<not> useFontsLoaded d 1
            \<and> state_at d 2 = \<lparr>fontsLoaded = True, pending = [], clock = 1000, set_calls = 1\<rparr>)
       \<and> (\<forall>chk k. font_check d = Some chk \<and> (\<forall>j<k. \<not> both_loaded chk (100 * j))
              \<and> both_loaded chk (100 * k) \<longrightarrow>
            (\<forall>n\<le>k. \<not> useFontsLoaded d n)
            \<and> state_at d (Suc k) =
                \<lparr>fontsLoaded = True, pending = [], clock = 100 * k, set_calls = 1\<rparr>)"
  using assms forced first_success not_yet by blast

text \<open>
  Claim C2, as amended, at two browsers: one without \<^verbatim>\<open>document.fonts\<close>, and one whose
  \<^verbatim>\<open>check\<close> answers true from 250 ms on, so that the fourth poll, at 300 ms, succeeds.
\<close>

theorem useFontsLoaded_fallback_paths_witness:
  "promise_unavailable legacy_browser
   \<and> state_at legacy_browser 2 = \<lparr>fontsLoaded = True, pending = [], clock = 1000, set_calls = 1\<rparr>
   \<and> promise_unavailable (check_only_browser (\<lambda>now font. 250 \<le> now))
   \<and> \<not> useFontsLoaded (check_only_browser (\<lambda>now font. 250 \<le> now)) 3
   \<and> state_at (check_only_browser (\<lambda>now font. 250 \<le> now)) 4 =
       \<lparr>fontsLoaded = True, pending = [], clock = 300, set_calls = 1\<rparr>"
proof -
  let ?chk = "\<lambda>(now::nat) (font::string). 250 \<le> now"
  have a: "promise_unavailable legacy_browser"
    by (simp add: promise_unavailable_def legacy_browser_def)
  have b: "font_check legacy_browser = None"
    by (simp add: font_check_def legacy_browser_def)
  have c: "promise_unavailable (check_only_browser ?chk)"
    by (simp add: promise_unavailable_def check_only_browser_def)
  have e: "font_check (check_only_browser ?chk) = Some ?chk"
    by (simp add: font_check_def check_only_browser_def)
  have f: "\<forall>j<3. \<not> both_loaded ?chk (100 * j)"
    by (auto simp: both_loaded_def)
  have g: "both_loaded ?chk (100 * 3)"
    by (simp add: both_loaded_def)
  from useFontsLoaded_fallback_paths[OF a] b
  have 1: "state_at legacy_browser 2 =
      \<lparr>fontsLoaded = True, pending = [], clock = 1000, set_calls = 1\<rparr>"
    by blast
  from useFontsLoaded_fallback_paths[OF c] e f g
  have "(\<forall>n\<le>3. \<not> useFontsLoaded (check_only_browser ?chk) n)
      \<and> state_at (check_only_browser ?chk) (Suc 3) =
          \<lparr>fontsLoaded = True, pending = [], clock = 100 * 3, set_calls = 1\<rparr>"
    by blast
  then have 2: "\<not> useFontsLoaded (check_only_browser ?chk) 3"
    and 3: "state_at (check_only_browser ?chk) 4 =
          \<lparr>fontsLoaded = True, pending = [], clock = 300, set_calls = 1\<rparr>"
    by (simp_all add: eval_nat_numeral del: state_at.simps)
  from a 1 c 2 3 show ?thesis by blast
qed

text \<open>
  Claim C2, as stated, fails at a browser that has \<^verbatim>\<open>document.fonts.check\<close>, has no
  \<^verbatim>\<open>document.fonts.ready\<close>, and never reports the fonts loaded: the hook takes the
  fallback, no attempt is the last and no timer forces the state, so no observation of the
  hook is ever true.
\<close>

theorem useFontsLoaded_fallback_never_ready:
  "promise_unavailable (check_only_browser (\<lambda>now font. False))
   \<and> \<not> (\<exists>n. useFontsLoaded (check_only_browser (\<lambda>now font. False)) n)"
proof -
  let ?d = "check_only_browser (\<lambda>now font. False)"
  have pu: "promise_unavailable ?d"
    by (simp add: promise_unavailable_def check_only_browser_def)
  have fc: "font_check ?d = Some (\<lambda>now font. False)"
    by (simp add: font_check_def check_only_browser_def)
  have "\<not> useFontsLoaded ?d n" for n
    using not_yet[OF pu fc, of n n] by (simp add: both_loaded_def)
  with pu show ?thesis by blast
qed

section \<open>What the setup callbacks build\<close>

lemma constructed_SplitText_create [simp]:
  "constructed (SplitText_create sel ty lc pg) = constructed pg @ [SplitText sel ty lc]"
  by (simp add: SplitText_create_def)

lemma constructed_forEach_removeAttribute [simp]:
  "constructed (forEach_removeAttribute sel name pg) = constructed pg"
  by (simp add: forEach_removeAttribute_def)

lemma constructed_gsap_timeline [simp]:
  "constructed (gsap_timeline d st sts pg) = constructed pg @ [Timeline d st sts]"
  by (simp add: gsap_timeline_def)

lemma constructed_gsap_tween [simp]:
  "constructed (gsap_tween s st pg) = constructed pg @ [Tween s st]"
  by (simp add: gsap_tween_def)

lemma constructed_gsap_set [simp]:
  "constructed (gsap_set sel ps pg) = constructed pg @ [SetProps sel ps]"
  by (simp add: gsap_set_def)













lemma hero_built:
  "constructed (hero_setup True pg) = constructed pg @
     [SplitText (cls ''hero-title'') Chars None, Timeline 1000 None hero_steps,
      Timeline 0
        (Some (on_scroll (cls ''hero-container'') (Pos ''1% top'') (Some (Pos ''bottom top''))
           Scrub False))
        [tween To (Selector (cls ''hero-container''))
           [(''rotate'', Lit ''7''), (''scale'', Lit ''0.9''),
            (''yPercent'', Lit ''30''), (''ease'', Lit ''power1.inOut'')]
           None 0 Append]]"
  by (simp add: hero_setup_def Let_def)


section \<open>Gating on readiness\<close>

text \<open>
  Claim C3. In each of the four components that segment text (HeroSection, MessageSection,
  FlavorTitle, NutritionSection), the setup callback run while \<^verbatim>\<open>fontsLoaded\<close> is false
  returns at once: the page is left as it was, so no \<^verbatim>\<open>SplitText\<close> and no timeline is
  created.
\<close>

theorem no_segmentation_before_ready:
  assumes "\<not> in_fontsLoaded i"
    and "sec \<in> {HeroSection, MessageSection, FlavorTitle, NutritionSection}"
  shows "callback_of sec i pg = pg
         \<and> filter is_split (constructed (callback_of sec i pg)) = filter is_split (constructed pg)
         \<and> filter is_timeline (constructed (callback_of sec i pg))
             = filter is_timeline (constructed pg)"
proof -
  have "callback_of sec i pg = pg"
    using assms
    by (auto simp: hero_setup_def message_setup_def flavorTitle_setup_def nutrition_setup_def)
  then show ?thesis by simp
qed

text \<open>
  Claim C3, at the hero section rendered on a 1200 px viewport before the fonts are
  loaded; once they are loaded the same callback does create a \<^verbatim>\<open>SplitText\<close>.
\<close>

theorem no_segmentation_before_ready_witness:
  "\<not> in_fontsLoaded (render_at False 1200)
   \<and> callback_of HeroSection (render_at False 1200)
         \<lparr>elements = hero_markup False False, constructed = []\<rparr>
       = \<lparr>elements = hero_markup False False, constructed = []\<rparr>
   \<and> filter is_split (constructed (callback_of HeroSection (render_at True 1200) empty_page)) \<noteq> []"
proof -
  have a: "\<not> in_fontsLoaded (render_at False 1200)" by (simp add: render_at_def)
  have b: "HeroSection \<in> {HeroSection, MessageSection, FlavorTitle, NutritionSection}" by simp
  have c: "filter is_split (constructed (callback_of HeroSection (render_at True 1200) empty_page))
      \<noteq> []"
    by (simp add: render_at_def hero_built is_split_def empty_page_def)
  from no_segmentation_before_ready[OF a b] a c show ?thesis by blast
qed

section \<open>Re-running a callback\<close>







section \<open>Steps without targets\<close>




section \<open>Accessibility labels after segmentation\<close>

text \<open>
  Claim C6. After the hero callback has run on the hero markup, the title still carries
  the \<^verbatim>\<open>aria-label\<close> the segmentation gave it, and so do the two headings FlavorTitle
  splits; MessageSection, whose callback strips the labels, leaves none, although its
  segmentation had added them.
\<close>

theorem hero_and_flavor_titles_keep_aria_label:
  "map (\<lambda>e. (classes e, attributes e))
     (labelled (hero_setup True \<lparr>elements = hero_markup False False, constructed = []\<rparr>))
     = [([''hero-title'', ''text-center''], [(''aria-label'', ''Freaking Delicious'')])]
   \<and> map (\<lambda>e. (tag e, attributes e))
       (labelled (flavorTitle_setup True \<lparr>elements = flavorTitle_markup, constructed = []\<rparr>))
     = [(''h1'', [(''aria-label'', ''We have 6'')]),
        (''h1'', [(''aria-label'', ''delicious flavors'')])]
   \<and> labelled (SplitText_create (cls ''first-message'') Words None
         \<lparr>elements = message_markup, constructed = []\<rparr>) \<noteq> []
   \<and> labelled (message_setup True \<lparr>elements = message_markup, constructed = []\<rparr>) = []"
  by (simp add: labelled_def hero_setup_def flavorTitle_setup_def message_setup_def Let_def
      SplitText_create_def forEach_removeAttribute_def gsap_timeline_def gsap_tween_def
      hero_markup_def hero_media_def flavorTitle_markup_def message_markup_def el_def
      setAttribute_def removeAttribute_def hasAttribute_def)

section \<open>The hero timeline\<close>

lemma hero_schedule:
  "schedule default_duration es hero_steps =
     [(0, 500), (0, 1000),
      (500, 1000 + 20 * int (resolve es (SplitChars (cls ''hero-title'')) - 1))]"
  by (simp add: schedule_def hero_steps_def tween_def place_def timeline_end_def
      total_duration_def default_duration_def Let_def del: resolve.simps)

lemma resolved_states:
  assumes "fonts d = Some fs" "ready fs = Some (ResolvesAt t)"
  shows "state_at d (Suc 0) =
      \<lparr>fontsLoaded = False, pending = [(t, FontsReadyThen)], clock = 0, set_calls = 0\<rparr>"
    and "state_at d (Suc (Suc n)) = \<lparr>fontsLoaded = True, pending = [], clock = t, set_calls = 1\<rparr>"
proof -
  show 1: "state_at d (Suc 0) =
      \<lparr>fontsLoaded = False, pending = [(t, FontsReadyThen)], clock = 0, set_calls = 0\<rparr>"
    using assms by (simp add: useEffect_body_def promise_then_def initial_def)
  show "state_at d (Suc (Suc n)) = \<lparr>fontsLoaded = True, pending = [], clock = t, set_calls = 1\<rparr>"
  proof (induction n)
    case 0
    show ?case by (simp add: 1 tick_def setFontsLoaded_def del: state_at.simps(2))
  next
    case (Suc n)
    have "state_at d (Suc (Suc (Suc n))) = tick d (state_at d (Suc (Suc n)))" by simp
    also have "\<dots> = \<lparr>fontsLoaded = True, pending = [], clock = t, set_calls = 1\<rparr>"
      by (simp only: Suc) (simp add: tick_def)
    finally show ?case .
  qed
qed

lemma loaded_iff:
  assumes "fonts d = Some fs" "ready fs = Some (ResolvesAt t)"
  shows "useFontsLoaded d n \<longleftrightarrow> 2 \<le> n"
proof (cases n)
  case 0
  then show ?thesis by (simp add: useFontsLoaded_def initial_def)
next
  case (Suc m)
  show ?thesis
  proof (cases m)
    case 0
    then show ?thesis using Suc resolved_states(1)[OF assms] by (simp add: useFontsLoaded_def)
  next
    case (Suc k)
    then show ?thesis using \<open>n = Suc m\<close> resolved_states(2)[OF assms, of k]
      by (simp add: useFontsLoaded_def del: state_at.simps)
  qed
qed

lemma loaded_clock:
  assumes "fonts d = Some fs" "ready fs = Some (ResolvesAt t)" "useFontsLoaded d n"
  shows "clock (state_at d n) = t"
proof (cases n)
  case 0
  then show ?thesis using assms(3) by (simp add: useFontsLoaded_def initial_def)
next
  case (Suc m)
  show ?thesis
  proof (cases m)
    case 0
    then show ?thesis using Suc assms(3) resolved_states(1)[OF assms(1,2)]
      by (simp add: useFontsLoaded_def)
  next
    case (Suc k)
    then show ?thesis using \<open>n = Suc m\<close> resolved_states(2)[OF assms(1,2), of k]
      by (simp del: state_at.simps)
  qed
qed

text \<open>
  Claim C7, as amended. When \<^verbatim>\<open>document.fonts.ready\<close> is fulfilled at time \<open>t\<close>, the
  hook turns true at \<open>t\<close> and not before; the hero callback builds nothing while it is
  false and builds the hero timeline once it is true. The timeline has three steps, in
  order the fade-in, the clip reveal and the character stagger, starting at 0 s, 0 s and
  0.5 s: the start of the overlap step is the end of the step before it minus 0.5 s.
\<close>

theorem hero_timeline_built_after_ready:
  assumes "fonts d = Some fs" and "ready fs = Some (ResolvesAt t)"
  shows "(\<forall>n. useFontsLoaded d n \<longleftrightarrow> 2 \<le> n)
       \<and> (\<forall>n. useFontsLoaded d n \<longrightarrow> clock (state_at d n) = t)
       \<and> (\<forall>n. \<not> useFontsLoaded d n \<longrightarrow> hero_setup (useFontsLoaded d n) pg = pg)
       \<and> (\<forall>n. useFontsLoaded d n \<longrightarrow>
             Timeline 1000 None hero_steps \<in> set (constructed (hero_setup (useFontsLoaded d n) pg)))
       \<and> length hero_steps = 3
       \<and> map fst (schedule default_duration es hero_steps) = [0, 0, 500]
       \<and> fst (schedule default_duration es hero_steps ! 2)
           = snd (schedule default_duration es hero_steps ! 1) - 500"
proof (intro conjI allI impI)
  fix n
  show "useFontsLoaded d n \<longleftrightarrow> 2 \<le> n" using assms by (rule loaded_iff)
next
  fix n
  assume "useFontsLoaded d n"
  with assms show "clock (state_at d n) = t" by (rule loaded_clock)
next
  fix n
  assume "\<not> useFontsLoaded d n"
  then show "hero_setup (useFontsLoaded d n) pg = pg" by (simp add: hero_setup_def)
next
  fix n
  assume "useFontsLoaded d n"
  then show "Timeline 1000 None hero_steps \<in> set (constructed (hero_setup (useFontsLoaded d n) pg))"
    by (simp add: hero_built)
next
  show "length hero_steps = 3" by (simp add: hero_steps_def)
next
  show "map fst (schedule default_duration es hero_steps) = [0, 0, 500]"
    by (simp add: hero_schedule)
next
  show "fst (schedule default_duration es hero_steps ! 2)
           = snd (schedule default_duration es hero_steps ! 1) - 500"
    by (simp add: hero_schedule)
qed

text \<open>
  Claim C7, as amended, at the scenario of the specification: the promise is fulfilled
  after 50 ms and the hero markup is the one of a desktop viewport, whose title has 17
  characters.
\<close>

theorem hero_timeline_built_after_ready_witness:
  "fonts (modern_browser 50)
     = Some \<lparr>ready = Some (ResolvesAt 50), check = Some (\<lambda>now font. 50 \<le> now)\<rparr>
   \<and> \<not> useFontsLoaded (modern_browser 50) 1 \<and> useFontsLoaded (modern_browser 50) 2
   \<and> clock (state_at (modern_browser 50) 2) = 50
   \<and> schedule default_duration (hero_markup False False) hero_steps
       = [(0, 500), (0, 1000), (500, 1320)]"
proof -
  have a: "fonts (modern_browser 50)
      = Some \<lparr>ready = Some (ResolvesAt 50), check = Some (\<lambda>now font. 50 \<le> now)\<rparr>"
    by (simp add: modern_browser_def)
  have b: "ready \<lparr>ready = Some (ResolvesAt 50), check = Some (\<lambda>now font. (50::nat) \<le> now)\<rparr>
      = Some (ResolvesAt 50)"
    by simp
  have c: "resolve (hero_markup False False) (SplitChars (cls ''hero-title'')) = 17"
    by (simp add: hero_markup_def hero_media_def Let_def el_def querySelectorAll_def char_count_def)
  have s: "schedule default_duration (hero_markup False False) hero_steps
      = [(0, 500), (0, 1000), (500, 1320)]"
    by (simp add: hero_schedule c del: resolve.simps)
  from hero_timeline_built_after_ready[OF a b, of empty_page "hero_markup False False"] a s
  show ?thesis by simp
qed

text \<open>
  Claim C7, as stated, fails: on the desktop hero markup the overlap step starts at 0.5 s,
  while the step before it starts at 0 s, so that its start minus 0.5 s is -0.5 s.
\<close>

theorem overlap_is_not_previous_start_minus_half_second:
  "fst (schedule default_duration (hero_markup False False) hero_steps ! 1) = 0
   \<and> fst (schedule default_duration (hero_markup False False) hero_steps ! 2) = 500
   \<and> fst (schedule default_duration (hero_markup False False) hero_steps ! 2)
       \<noteq> fst (schedule default_duration (hero_markup False False) hero_steps ! 1) - 500"
  by (simp add: hero_schedule)

section \<open>The flavor slider below the desktop breakpoint\<close>

text \<open>
  Claim C8. At every viewport width of at most 1024 px the FlavorSlider callback creates
  no pinned timeline: the pinned objects of the page are those that were there before the
  run, and a mount on a fresh page leaves none.
\<close>

theorem flavorSlider_no_pin_up_to_tablet:
  assumes "width \<le> 1024"
  shows "filter pinned (constructed (flavorSlider_setup (max_width 1024 width) sw iw pg))
           = filter pinned (constructed pg)
         \<and> filter pinned (constructed (mount FlavorSlider
               (i\<lparr>in_isTablet := max_width 1024 width\<rparr>) empty_page)) = []"
  using assms
  by (simp add: flavorSlider_setup_def max_width_def Let_def pinned_def on_scroll_def mount_def
      empty_page_def)

text \<open>
  Claim C8, at 400 px: the callback builds one object, the title timeline, and it is not
  pinned; at 1200 px the same callback does build a pinned timeline.
\<close>

theorem flavorSlider_no_pin_up_to_tablet_witness:
  "(400::int) \<le> 1024
   \<and> filter pinned (constructed (flavorSlider_setup (max_width 1024 400) 6000 400 empty_page)) = []
   \<and> length (constructed (flavorSlider_setup (max_width 1024 400) 6000 400 empty_page)) = 1
   \<and> filter pinned (constructed (flavorSlider_setup (max_width 1024 1200) 6000 1200 empty_page))
       \<noteq> []"
proof -
  have a: "(400::int) \<le> 1024" by simp
  have b: "filter pinned (constructed (flavorSlider_setup (max_width 1024 1200) 6000 1200 empty_page))
      \<noteq> []"
    by (simp add: flavorSlider_setup_def max_width_def Let_def pinned_def on_scroll_def
        empty_page_def)
  have c: "length (constructed (flavorSlider_setup (max_width 1024 400) 6000 400 empty_page)) = 1"
    by (simp add: flavorSlider_setup_def max_width_def Let_def empty_page_def)
  from flavorSlider_no_pin_up_to_tablet[OF a, of 6000 400 empty_page] a b c show ?thesis
    by (simp add: empty_page_def)
qed

section \<open>Hovering over a testimonial card\<close>

lemma ref_at_update:
  "ref_at (r[i := x]) j = (if j = i \<and> i < length r then x else ref_at r j)"
  by (simp add: ref_at_def)

lemma ref_at_SomeD: "ref_at r i = Some v \<Longrightarrow> i < length r \<and> r ! i = Some v"
  by (simp add: ref_at_def split: if_splits)

lemma mount_refs_fold:
  "fold (\<lambda>index r. set_ref r index (f index)) [0..<n] [] = map f [0..<n]"
  by (induction n) (simp_all add: set_ref_def)

lemma ref_at_mount:
  "i < length cards \<Longrightarrow>
   ref_at (mount_refs cards) i = Some \<lparr>video_src = card_src (cards ! i), paused = True\<rparr>"
  by (simp add: mount_refs_def mount_refs_fold ref_at_def)

lemma mount_three_cards:
  "mount_refs three_cards
     = [Some \<lparr>video_src = ''/videos/f1.mp4'', paused = True\<rparr>,
        Some \<lparr>video_src = ''/videos/f2.mp4'', paused = True\<rparr>,
        Some \<lparr>video_src = ''/videos/f3.mp4'', paused = True\<rparr>]"
  by (simp add: mount_refs_def three_cards_def set_ref_def upt_rec numeral_3_eq_3 numeral_2_eq_2)

text \<open>
  Claim C9. When the ref of card \<open>i\<close> holds a video, a hover-enter on card \<open>i\<close> plays
  that video and a hover-leave pauses it; neither changes the entry of any other card, and
  playing a video that plays or pausing one that is paused succeeds and changes nothing.
  Rendering the cards gives every card index such a ref.
\<close>

theorem hover_plays_and_pauses_own_video_only:
  assumes "ref_at r i = Some v"
  shows "handlePlay i r = Inr (r[i := Some (play v)])
       \<and> handlePause i r = Inr (r[i := Some (pause v)])
       \<and> (\<forall>j. j \<noteq> i \<longrightarrow> ref_at (r[i := Some (play v)]) j = ref_at r j
                       \<and> ref_at (r[i := Some (pause v)]) j = ref_at r j)
       \<and> map_option paused (ref_at (r[i := Some (play v)]) i) = Some False
       \<and> map_option paused (ref_at (r[i := Some (pause v)]) i) = Some True
       \<and> handlePlay i (r[i := Some (play v)]) = Inr (r[i := Some (play v)])
       \<and> handlePause i (r[i := Some (pause v)]) = Inr (r[i := Some (pause v)])
       \<and> (\<forall>k<length cards. ref_at (mount_refs cards) k \<noteq> None)"
proof -
  from assms have l: "i < length r" by (simp add: ref_at_SomeD)
  have m: "\<forall>k<length cards. ref_at (mount_refs cards) k \<noteq> None"
    by (simp add: ref_at_mount)
  show ?thesis using assms l m
    by (simp add: handlePlay_def handlePause_def ref_at_update play_def pause_def)
qed

text \<open>
  Claim C9, at three mounted cards and a hover-enter on the card of index 2: the third
  video plays and the two others stay paused.
\<close>

theorem hover_plays_and_pauses_own_video_only_witness:
  "ref_at (mount_refs three_cards) 2 = Some \<lparr>video_src = ''/videos/f3.mp4'', paused = True\<rparr>
   \<and> handlePlay 2 (mount_refs three_cards)
       = Inr [Some \<lparr>video_src = ''/videos/f1.mp4'', paused = True\<rparr>,
              Some \<lparr>video_src = ''/videos/f2.mp4'', paused = True\<rparr>,
              Some \<lparr>video_src = ''/videos/f3.mp4'', paused = False\<rparr>]"
proof -
  have a: "ref_at (mount_refs three_cards) 2
      = Some \<lparr>video_src = ''/videos/f3.mp4'', paused = True\<rparr>"
    by (simp add: mount_three_cards ref_at_def)
  from hover_plays_and_pauses_own_video_only[OF a] a show ?thesis
    by (simp add: mount_three_cards play_def)
qed

text \<open>
  Claim C10. \<^verbatim>\<open>handlePlay\<close> and \<^verbatim>\<open>handlePause\<close> call a method on the entry of the ref
  array without any test: when the entry is unset, both end in the \<^verbatim>\<open>TypeError\<close>
  branch, and each of them returns normally exactly when the entry is set.
\<close>

theorem hover_handlers_unguarded:
  "(ref_at r i = None \<longrightarrow> handlePlay i r = Inl TypeError \<and> handlePause i r = Inl TypeError)
   \<and> ((\<exists>r'. handlePlay i r = Inr r') \<longleftrightarrow> ref_at r i \<noteq> None)
   \<and> ((\<exists>r'. handlePause i r = Inr r') \<longleftrightarrow> ref_at r i \<noteq> None)"
  by (auto simp: handlePlay_def handlePause_def split: option.splits)

text \<open>
  Claim C10, before any card is mounted, after the ref of the second of three cards has
  been reset to \<^verbatim>\<open>null\<close>, and at a mounted card.
\<close>

theorem hover_handlers_unguarded_witness:
  "ref_at [] 0 = None \<and> handlePlay 0 [] = Inl TypeError \<and> handlePause 0 [] = Inl TypeError
   \<and> ref_at (set_ref (mount_refs three_cards) 1 None) 1 = None
   \<and> handlePlay 1 (set_ref (mount_refs three_cards) 1 None) = Inl TypeError
   \<and> (\<exists>r'. handlePlay 0 (mount_refs three_cards) = Inr r')"
proof -
  have a: "ref_at [] 0 = None" by (simp add: ref_at_def)
  have b: "ref_at (set_ref (mount_refs three_cards) 1 None) 1 = None"
    by (simp add: mount_three_cards set_ref_def ref_at_def)
  have c: "ref_at (mount_refs three_cards) 0 \<noteq> None" by (simp add: mount_three_cards ref_at_def)
  from hover_handlers_unguarded[of "[]" 0]
    hover_handlers_unguarded[of "set_ref (mount_refs three_cards) 1 None" 1]
    hover_handlers_unguarded[of "mount_refs three_cards" 0] a b c
  show ?thesis by (simp only: simp_thms)
qed

end
